theory Spec2Isabelle
  imports
    Main
    "HOL-Library.AList"
    "HOL-Library.Char_ord"
    "HOL-Library.List_Lexorder"
begin

section \<open>Go strings and the standard-library helpers the builder calls\<close>

text \<open>
  A Go \<^verbatim>\<open>string\<close> is a sequence of bytes, which is what \<^typ>\<open>string\<close> is here.
  Strings are compared bytewise and lexicographically, a proper prefix first; that is the
  order \<^theory_text>\<open>Char_ord\<close> and \<^theory_text>\<open>List_Lexorder\<close> put on \<^typ>\<open>string\<close>.
  The functions of this section are Go's standard library, not the repository: they are
  written out only as far as \<^verbatim>\<open>builder.go\<close> and \<^verbatim>\<open>billwerk.go\<close> depend on them.
\<close>

definition isLower :: "char \<Rightarrow> bool" where
  "isLower c \<longleftrightarrow> CHR ''a'' \<le> c \<and> c \<le> CHR ''z''"

definition isUpper :: "char \<Rightarrow> bool" where
  "isUpper c \<longleftrightarrow> CHR ''A'' \<le> c \<and> c \<le> CHR ''Z''"

definition isDigit :: "char \<Rightarrow> bool" where
  "isDigit c \<longleftrightarrow> CHR ''0'' \<le> c \<and> c \<le> CHR ''9''"

definition toLower :: "nat" where
  "toLower = 32"

definition join :: "string \<Rightarrow> string list \<Rightarrow> string" where
  \<comment> \<open>\<^verbatim>\<open>strings.Join(xs, sep)\<close>\<close>
  "join sep xs = (case xs of [] \<Rightarrow> [] | y # ys \<Rightarrow> y @ concat (map (\<lambda>z. sep @ z) ys))"

subsection \<open>\<^verbatim>\<open>strconv\<close>: the decimal rendering behind \<^verbatim>\<open>%d\<close>\<close>

definition digit :: "nat \<Rightarrow> char" where
  "digit d = ''0123456789'' ! (d mod 10)"

fun utoa :: "nat \<Rightarrow> string" where
  "utoa n = (if n < 10 then [digit n] else utoa (n div 10) @ [digit n])"

declare utoa.simps [simp del]

definition itoa :: "int \<Rightarrow> string" where
  "itoa i = (if i < 0 then CHR ''-'' # utoa (nat (- i)) else utoa (nat i))"

subsection \<open>\<^verbatim>\<open>encoding/base64\<close>: \<^verbatim>\<open>StdEncoding.EncodeToString\<close>\<close>

definition encodeStd :: string where
  "encodeStd = ''ABCDEFGHIJKLMNOPQRSTUVWXYZabcdefghijklmnopqrstuvwxyz0123456789+/''"

definition enc64 :: "nat \<Rightarrow> char" where
  \<comment> \<open>\<^verbatim>\<open>enc.encode[v & 0x3F]\<close>\<close>
  "enc64 v = encodeStd ! (v mod 64)"

fun EncodeToString :: "string \<Rightarrow> string" where
  "EncodeToString [] = []"
| "EncodeToString [a] =
     (let val = of_char a * 65536
      in [enc64 (val div 262144), enc64 (val div 4096), CHR ''='', CHR ''=''])"
| "EncodeToString [a, b] =
     (let val = of_char a * 65536 + of_char b * 256
      in [enc64 (val div 262144), enc64 (val div 4096), enc64 (val div 64), CHR ''=''])"
| "EncodeToString (a # b # c # rest) =
     (let val = of_char a * 65536 + of_char b * 256 + of_char c
      in [enc64 (val div 262144), enc64 (val div 4096), enc64 (val div 64), enc64 val]
         @ EncodeToString rest)"

subsection \<open>\<^verbatim>\<open>net/textproto\<close> and \<^verbatim>\<open>net/http\<close>: header keys and the header map\<close>

definition isTokenByte :: "char \<Rightarrow> bool" where
  \<comment> \<open>the token characters of RFC 7230: \<^verbatim>\<open>validHeaderFieldByte\<close>, \<^verbatim>\<open>httpguts.IsTokenRune\<close>\<close>
  "isTokenByte c \<longleftrightarrow>
     isLower c \<or> isUpper c \<or> isDigit c \<or>
     c \<in> set (''!#$%&*+-.^_|~'' @ [CHR 0x27, CHR 0x60])"

fun canon :: "bool \<Rightarrow> string \<Rightarrow> string" where
  "canon upper [] = []"
| "canon upper (c # cs) =
     (let c' = (if upper \<and> isLower c then char_of (of_char c - toLower)
                else if \<not> upper \<and> isUpper c then char_of (of_char c + toLower)
                else c)
      in c' # canon (c' = CHR ''-'') cs)"

definition CanonicalMIMEHeaderKey :: "string \<Rightarrow> string" where
  \<comment> \<open>a key holding a byte that is no token character is returned as it is\<close>
  "CanonicalMIMEHeaderKey s = (if list_all isTokenByte s then canon True s else s)"

type_synonym Header = "string \<rightharpoonup> string list"

definition Header_Set :: "string \<Rightarrow> string \<Rightarrow> Header \<Rightarrow> Header" where
  "Header_Set key v h = h(CanonicalMIMEHeaderKey key \<mapsto> [v])"

definition Header_Get :: "Header \<Rightarrow> string \<Rightarrow> string" where
  "Header_Get h key =
     (case h (CanonicalMIMEHeaderKey key) of
        None \<Rightarrow> []
      | Some [] \<Rightarrow> []
      | Some (v # _) \<Rightarrow> v)"

subsection \<open>\<^verbatim>\<open>net/url\<close>: \<^verbatim>\<open>Values\<close> and \<^verbatim>\<open>QueryEscape\<close>\<close>

text \<open>
  \<^verbatim>\<open>url.Values\<close> is \<^verbatim>\<open>map[string][]string\<close>. It is kept as an association list read
  through \<^const>\<open>map_of\<close>, so that the keys can be listed and sorted as \<^verbatim>\<open>Encode\<close> does.
\<close>

type_synonym Values = "(string \<times> string list) list"

definition Values_lookup :: "Values \<Rightarrow> string \<Rightarrow> string list" where
  \<comment> \<open>\<^verbatim>\<open>v[key]\<close>: the nil slice for a missing key\<close>
  "Values_lookup m key = (case map_of m key of None \<Rightarrow> [] | Some vs \<Rightarrow> vs)"

definition Values_Set :: "string \<Rightarrow> string \<Rightarrow> Values \<Rightarrow> Values" where
  \<comment> \<open>\<^verbatim>\<open>v[key] = []string{value}\<close>\<close>
  "Values_Set key val m = AList.update key [val] m"

definition Values_Add :: "string \<Rightarrow> string \<Rightarrow> Values \<Rightarrow> Values" where
  \<comment> \<open>\<^verbatim>\<open>v[key] = append(v[key], value)\<close>\<close>
  "Values_Add key val m = AList.update key (Values_lookup m key @ [val]) m"

definition upperhex :: string where
  "upperhex = ''0123456789ABCDEF''"

definition shouldEscape :: "char \<Rightarrow> bool" where
  \<comment> \<open>mode \<^verbatim>\<open>encodeQueryComponent\<close>: everything but the unreserved characters\<close>
  "shouldEscape c \<longleftrightarrow>
     \<not> (isLower c \<or> isUpper c \<or> isDigit c \<or> c \<in> set ''-_.~'')"

definition escapeByte :: "char \<Rightarrow> string" where
  "escapeByte c =
     (if c = CHR '' '' then ''+''
      else if shouldEscape c
        then [CHR ''%'', upperhex ! (of_char c div 16), upperhex ! (of_char c mod 16)]
      else [c])"

definition QueryEscape :: "string \<Rightarrow> string" where
  "QueryEscape s = concat (map escapeByte s)"

definition Values_keys :: "Values \<Rightarrow> string list" where
  \<comment> \<open>\<^verbatim>\<open>for k := range v\<close> followed by \<^verbatim>\<open>slices.Sort(keys)\<close>\<close>
  "Values_keys m = sort (remdups (map fst m))"

definition writePair :: "string \<Rightarrow> string \<Rightarrow> string \<Rightarrow> string" where
  \<comment> \<open>the body of the inner loop of \<^verbatim>\<open>Encode\<close>, on the buffer \<open>buf\<close>\<close>
  "writePair keyEscaped buf val =
     (if length buf > 0 then buf @ ''&'' else buf) @ keyEscaped @ ''='' @ QueryEscape val"

definition Encode :: "Values \<Rightarrow> string" where
  "Encode m =
     (if m = [] then []
      else foldl (\<lambda>buf k. foldl (writePair (QueryEscape k)) buf (Values_lookup m k))
             [] (Values_keys m))"

text \<open>
  What \<open>Encode\<close> writes, as a list: the pairs of a key and a value in the order of the
  loops, the keys in sorted order and, for one key, its values in the order of its slice.
  \<open>renderPair\<close> is the text of one pair in the query string.
\<close>

definition renderPair :: "string \<times> string \<Rightarrow> string" where
  "renderPair p = QueryEscape (fst p) @ ''='' @ QueryEscape (snd p)"

definition query_pairs :: "Values \<Rightarrow> (string \<times> string) list" where
  "query_pairs m = concat (map (\<lambda>k. map (Pair k) (Values_lookup m k)) (Values_keys m))"

section \<open>Errors\<close>

text \<open>
  \<^verbatim>\<open>ErrorResponse\<close> is the structured error body of the API. It implements Go's
  \<^verbatim>\<open>error\<close> interface through its method \<^verbatim>\<open>Error\<close>.
\<close>

record ErrorResponse =
  Code :: int
  ErrorMessage :: string
  ErrorDescription :: string
  HTTPReason :: string
  HTTPStatus :: int
  Path :: string
  Timestamp :: string
  RequestID :: string
  TransactionError :: string

definition Error :: "ErrorResponse \<Rightarrow> string" where
  "Error e =
     (let message = ErrorMessage e
      in if ErrorDescription e \<noteq> [] then message @ '': '' @ ErrorDescription e
         else message)"

text \<open>
  The values of the interface \<^verbatim>\<open>error\<close> that the library returns: an error of another
  package or one made by \<^verbatim>\<open>fmt.Errorf\<close> without \<^verbatim>\<open>%w\<close> (a message only), one made by
  \<^verbatim>\<open>fmt.Errorf\<close> with \<^verbatim>\<open>%w\<close> (a message and the wrapped cause), and an
  \<^verbatim>\<open>ErrorResponse\<close>.
\<close>

datatype error =
    ErrorString string
  | WrapError string error
  | APIError ErrorResponse

fun errorText :: "error \<Rightarrow> string" where
  "errorText (ErrorString s) = s"
| "errorText (WrapError s cause) = s"
| "errorText (APIError e) = Error e"

fun Unwrap :: "error \<Rightarrow> error option" where
  "Unwrap (WrapError s cause) = Some cause"
| "Unwrap _ = None"

definition Errorf_d :: "string \<Rightarrow> int \<Rightarrow> error" where
  \<comment> \<open>\<^verbatim>\<open>fmt.Errorf(prefix + "%d", n)\<close>\<close>
  "Errorf_d prefix n = ErrorString (prefix @ itoa n)"

definition Errorf_w :: "string \<Rightarrow> error \<Rightarrow> error" where
  \<comment> \<open>\<^verbatim>\<open>fmt.Errorf(prefix + "%w", err)\<close>\<close>
  "Errorf_w prefix err = WrapError (prefix @ errorText err) err"

section \<open>The request builder (\<^verbatim>\<open>pkg/request/builder.go\<close>)\<close>

text \<open>
  A \<^verbatim>\<open>context.Context\<close> is opaque to the library; the interface value may be nil.
  An \<^verbatim>\<open>io.Reader\<close> body is the bytes it yields, or nil.
\<close>

datatype Context = Background nat

record request =
  ctx :: "Context option"
  method' :: string
  baseURL :: string
  endpoint :: string
  header :: Header
  params :: Values
  body :: "string option"

definition MethodGet :: string where "MethodGet = ''GET''"
definition MethodPost :: string where "MethodPost = ''POST''"
definition MethodPut :: string where "MethodPut = ''PUT''"
definition MethodDelete :: string where "MethodDelete = ''DELETE''"

definition UserAgent :: "string \<Rightarrow> string" where
  \<comment> \<open>\<^verbatim>\<open>billwerk.Version\<close>, a constant of the root package, is the parameter\<close>
  "UserAgent Version = ''go-billwerk/'' @ Version"

definition request_New :: "Context option \<Rightarrow> request" where
  "request_New c =
     \<lparr>ctx = c, method' = MethodGet, baseURL = [], endpoint = [],
      header = Map.empty, params = [], body = None\<rparr>"

definition WithBaseURL :: "string \<Rightarrow> request \<Rightarrow> request" where
  "WithBaseURL b r = r\<lparr>baseURL := b\<rparr>"

definition WithEndpoint :: "string \<Rightarrow> request \<Rightarrow> request" where
  "WithEndpoint e r = r\<lparr>endpoint := e\<rparr>"

definition WithParam :: "string \<Rightarrow> string \<Rightarrow> request \<Rightarrow> request" where
  "WithParam key val r = r\<lparr>params := Values_Set key val (params r)\<rparr>"

definition AddParam :: "string \<Rightarrow> string \<Rightarrow> request \<Rightarrow> request" where
  "AddParam key val r = r\<lparr>params := Values_Add key val (params r)\<rparr>"

definition WithHeader :: "string \<Rightarrow> string \<Rightarrow> request \<Rightarrow> request" where
  "WithHeader key val r = r\<lparr>header := Header_Set key val (header r)\<rparr>"

definition WithBasicAuth :: "string \<Rightarrow> string \<Rightarrow> request \<Rightarrow> request" where
  "WithBasicAuth username password r =
     (let rawCredentials = username @ '':'' @ password;
          credentials = EncodeToString rawCredentials;
          val = ''Basic '' @ credentials
      in WithHeader ''Authorization'' val r)"

definition WithContentTypeJSON :: "request \<Rightarrow> request" where
  "WithContentTypeJSON r = WithHeader ''Content-Type'' ''application/json; charset=utf-8'' r"

definition WithBody :: "string option \<Rightarrow> request \<Rightarrow> request" where
  "WithBody b r = r\<lparr>body := b\<rparr>"

text \<open>
  \<^verbatim>\<open>json.NewEncoder(buf).Encode(v)\<close> marshals \<open>v\<close> first and writes the text and a
  newline to the buffer only when that succeeded. The marshaller of \<^verbatim>\<open>encoding/json\<close>
  is the parameter \<open>marshal\<close>; the error it returns is dropped, as the source drops it.
\<close>

definition Encoder_Encode :: "('v \<Rightarrow> error + string) \<Rightarrow> 'v \<Rightarrow> string \<Rightarrow> error option \<times> string" where
  "Encoder_Encode marshal v buf =
     (case marshal v of
        Inl err \<Rightarrow> (Some err, buf)
      | Inr s \<Rightarrow> (None, buf @ s @ [CHR 0x0A]))"

definition WithJSONBody :: "('v \<Rightarrow> error + string) \<Rightarrow> 'v \<Rightarrow> request \<Rightarrow> request" where
  "WithJSONBody marshal v r =
     (let r1 = WithContentTypeJSON r;
          buf = snd (Encoder_Encode marshal v [])
      in r1\<lparr>body := Some buf\<rparr>)"

text \<open>
  \<^verbatim>\<open>url.URL\<close> with its fields (the field \<^verbatim>\<open>Path\<close> is \<open>URLPath\<close> here; a
  \<^verbatim>\<open>Userinfo\<close> is a user name and an optional password), and the part of
  \<^verbatim>\<open>http.Request\<close> that the library reads or writes.
  \<^verbatim>\<open>http.NewRequestWithContext\<close> belongs to \<^verbatim>\<open>net/http\<close>: it is the parameter
  \<open>newRequest\<close> of \<open>build\<close>, given the context, the method, the URL text and the body.
\<close>

record URL =
  Scheme :: string
  Opaque :: string
  User :: "(string \<times> string option) option"
  Host :: string
  URLPath :: string
  RawPath :: string
  OmitHost :: bool
  ForceQuery :: bool
  RawQuery :: string
  Fragment :: string
  RawFragment :: string

record Request =
  Method :: string
  URL :: URL
  Header :: Header
  ReqBody :: "string option"

type_synonym newRequest =
  "Context option \<Rightarrow> string \<Rightarrow> string \<Rightarrow> string option \<Rightarrow> error + Request"

text \<open>
  \<open>build\<close> writes the User-Agent into the builder's own header map, which the request
  then shares: the builder after the call is the second component of the result.
\<close>

definition build :: "string \<Rightarrow> newRequest \<Rightarrow> request \<Rightarrow> (error + Request) \<times> request" where
  "build Version newRequest r =
     (let fullURL = baseURL r @ endpoint r
      in case newRequest (ctx r) (method' r) fullURL (body r) of
           Inl err \<Rightarrow> (Inl err, r)
         | Inr req \<Rightarrow>
             (let r' = r\<lparr>header := Header_Set ''User-Agent'' (UserAgent Version) (header r)\<rparr>
              in (Inr (req\<lparr>Header := header r',
                            URL := (URL req)\<lparr>RawQuery := Encode (params r')\<rparr>\<rparr>), r')))"

definition GET :: "string \<Rightarrow> newRequest \<Rightarrow> request \<Rightarrow> (error + Request) \<times> request" where
  "GET Version newRequest r = build Version newRequest (r\<lparr>method' := MethodGet\<rparr>)"

definition POST :: "string \<Rightarrow> newRequest \<Rightarrow> request \<Rightarrow> (error + Request) \<times> request" where
  "POST Version newRequest r = build Version newRequest (r\<lparr>method' := MethodPost\<rparr>)"

definition PUT :: "string \<Rightarrow> newRequest \<Rightarrow> request \<Rightarrow> (error + Request) \<times> request" where
  "PUT Version newRequest r = build Version newRequest (r\<lparr>method' := MethodPut\<rparr>)"

definition DELETE :: "string \<Rightarrow> newRequest \<Rightarrow> request \<Rightarrow> (error + Request) \<times> request" where
  "DELETE Version newRequest r = build Version newRequest (r\<lparr>method' := MethodDelete\<rparr>)"

subsection \<open>The request constructor on URL texts of the plain form\<close>

text \<open>
  Of \<^verbatim>\<open>url.Parse\<close>, \<^verbatim>\<open>URL.String\<close> and \<^verbatim>\<open>http.NewRequestWithContext\<close> the model
  writes out what they do on URL texts of the plain form

  \<^verbatim>\<open>scheme "://" host [":" port] path ["?" query]\<close>

  where the scheme is \<^verbatim>\<open>http\<close> or \<^verbatim>\<open>https\<close> in lower case, the host is not empty and
  holds letters, digits, dots and hyphens, the port is not empty and holds digits, the
  path is empty or starts with a slash and holds letters, digits, \<^verbatim>\<open>- _ . ~\<close> and
  slashes, and the query holds printable ASCII bytes other than \<^verbatim>\<open>#\<close>. There the parser
  cuts the text at the first \<^verbatim>\<open>?\<close> and at the first \<^verbatim>\<open>/\<close> after the authority and
  escapes or unescapes nothing, and the printer puts the fields together again. Every
  other text, a nil context and an invalid method are left to the library itself, which
  is the parameter \<open>lib\<close> of the constructor and \<open>print\<close> of the printer.
\<close>

definition Cut :: "string \<Rightarrow> char \<Rightarrow> string \<times> string \<times> bool" where
  \<comment> \<open>\<^verbatim>\<open>strings.Cut(s, sep)\<close> for a separator of one byte: before, after, found\<close>
  "Cut s sep =
     (takeWhile (\<lambda>c. c \<noteq> sep) s, drop 1 (dropWhile (\<lambda>c. c \<noteq> sep) s), sep \<in> set s)"

definition isAlnum :: "char \<Rightarrow> bool" where
  "isAlnum c \<longleftrightarrow> isLower c \<or> isUpper c \<or> isDigit c"

definition hostByte :: "char \<Rightarrow> bool" where
  "hostByte c \<longleftrightarrow> isAlnum c \<or> c \<in> set ''-.''"

definition pathByte :: "char \<Rightarrow> bool" where
  "pathByte c \<longleftrightarrow> isAlnum c \<or> c \<in> set ''-_.~/''"

definition queryByte :: "char \<Rightarrow> bool" where
  "queryByte c \<longleftrightarrow> CHR 0x21 \<le> c \<and> c \<le> CHR 0x7E \<and> c \<noteq> CHR ''#''"

definition plainHost :: "string \<Rightarrow> bool" where
  "plainHost h =
     (case Cut h (CHR '':'') of
        (name, port, colon) \<Rightarrow>
          name \<noteq> [] \<and> list_all hostByte name \<and>
          (if colon then port \<noteq> [] \<and> list_all isDigit port else True))"

definition plainPath :: "string \<Rightarrow> bool" where
  "plainPath p = ((case p of [] \<Rightarrow> True | c # _ \<Rightarrow> c = CHR ''/'') \<and> list_all pathByte p)"

definition plainURL :: "URL \<Rightarrow> bool" where
  "plainURL u \<longleftrightarrow>
     (Scheme u = ''http'' \<or> Scheme u = ''https'') \<and> Opaque u = [] \<and> User u = None \<and>
     plainHost (Host u) \<and> plainPath (URLPath u) \<and> RawPath u = [] \<and> \<not> OmitHost u \<and>
     Fragment u = [] \<and> RawFragment u = []"

definition Parse_plain :: "string \<Rightarrow> URL option" where
  \<comment> \<open>\<^verbatim>\<open>url.Parse\<close> on a text of the plain form; \<open>None\<close> for every other text\<close>
  "Parse_plain rawURL =
     (case Cut rawURL (CHR ''?'') of
        (pre, query, found) \<Rightarrow>
          (case Cut pre (CHR '':'') of
             (scheme, rest, colon) \<Rightarrow>
               (let authority = takeWhile (\<lambda>c. c \<noteq> CHR ''/'') (drop 2 rest);
                    path = dropWhile (\<lambda>c. c \<noteq> CHR ''/'') (drop 2 rest);
                    u = \<lparr>Scheme = scheme, Opaque = [], User = None, Host = authority,
                         URLPath = path, RawPath = [], OmitHost = False,
                         ForceQuery = (found \<and> query = []), RawQuery = query,
                         Fragment = [], RawFragment = []\<rparr>
                in if colon \<and> take 2 rest = ''//'' \<and> list_all queryByte query \<and> plainURL u
                   then Some u else None)))"


definition validMethod :: "string \<Rightarrow> bool" where
  "validMethod m \<longleftrightarrow> length m > 0 \<and> list_all isTokenByte m"

definition NewRequestWithContext :: "newRequest \<Rightarrow> newRequest" where
  "NewRequestWithContext lib c m url b =
     (case Parse_plain url of
        Some u \<Rightarrow>
          if c \<noteq> None \<and> validMethod m
          then Inr \<lparr>Method = m, URL = u, Header = Map.empty, ReqBody = b\<rparr>
          else lib c m url b
      | None \<Rightarrow> lib c m url b)"

subsection \<open>A chain of calls on a builder\<close>

text \<open>
  The calls a call site may chain on a builder before the terminal method, as values, so
  that a statement can speak of every chain: \<open>invoke\<close> makes one call and \<open>chain\<close> makes
  them in turn. \<open>setsAuthorization\<close> holds of the calls that write the Authorization
  header themselves.
\<close>

datatype 'v call =
    CallWithBaseURL string
  | CallWithEndpoint string
  | CallWithParam string string
  | CallAddParam string string
  | CallWithHeader string string
  | CallWithBasicAuth string string
  | CallWithContentTypeJSON
  | CallWithBody "string option"
  | CallWithJSONBody 'v

fun invoke :: "('v \<Rightarrow> error + string) \<Rightarrow> 'v call \<Rightarrow> request \<Rightarrow> request" where
  "invoke marshal (CallWithBaseURL b) r = WithBaseURL b r"
| "invoke marshal (CallWithEndpoint e) r = WithEndpoint e r"
| "invoke marshal (CallWithParam k v) r = WithParam k v r"
| "invoke marshal (CallAddParam k v) r = AddParam k v r"
| "invoke marshal (CallWithHeader k v) r = WithHeader k v r"
| "invoke marshal (CallWithBasicAuth u p) r = WithBasicAuth u p r"
| "invoke marshal CallWithContentTypeJSON r = WithContentTypeJSON r"
| "invoke marshal (CallWithBody b) r = WithBody b r"
| "invoke marshal (CallWithJSONBody v) r = WithJSONBody marshal v r"

definition chain :: "('v \<Rightarrow> error + string) \<Rightarrow> 'v call list \<Rightarrow> request \<Rightarrow> request" where
  "chain marshal calls r = foldl (\<lambda>r c. invoke marshal c r) r calls"

fun setsAuthorization :: "'v call \<Rightarrow> bool" where
  "setsAuthorization (CallWithHeader k v) = (CanonicalMIMEHeaderKey k = ''Authorization'')"
| "setsAuthorization (CallWithBasicAuth u p) = True"
| "setsAuthorization c = False"

section \<open>Decoding an \<^verbatim>\<open>ErrorResponse\<close>\<close>

text \<open>
  \<^verbatim>\<open>json.NewDecoder(body).Decode(&errRes)\<close> with \<open>errRes\<close> a fresh
  \<^verbatim>\<open>ErrorResponse\<close>. The struct tags of the source name the JSON key of each field;
  \<open>assign\<close> is that table. Of \<^verbatim>\<open>encoding/json\<close> the model writes out what it does on
  a body of the plain form: one object, and after it nothing but white space, whose keys
  and string values are printable ASCII without quote and backslash, whose other values
  are integers of at most nine digits, and in which a key that is a tag has a value of
  its field's type and no key differs from a tag in the case of its letters only. There
  the decoder stores each value in the field of its key, a later one over an earlier one,
  ignores the keys that are no tag, and returns no error. Every other body is left to the
  library itself, the parameter \<open>lib\<close>.
\<close>

definition ErrorResponse_zero :: ErrorResponse where
  "ErrorResponse_zero =
     \<lparr>Code = 0, ErrorMessage = [], ErrorDescription = [], HTTPReason = [], HTTPStatus = 0,
      Path = [], Timestamp = [], RequestID = [], TransactionError = []\<rparr>"

datatype scalar = SString string | SInt int

definition lowerByte :: "char \<Rightarrow> char" where
  "lowerByte c = (if isUpper c then char_of (of_char c + toLower) else c)"

definition tags :: "string list" where
  "tags = [''code'', ''error'', ''message'', ''http_reason'', ''http_status'', ''path'',
           ''timestamp'', ''request_id'', ''transaction_error'']"

definition assignString ::
  "(string \<Rightarrow> ErrorResponse) \<Rightarrow> scalar \<Rightarrow> ErrorResponse option" where
  "assignString upd v = (case v of SString s \<Rightarrow> Some (upd s) | SInt n \<Rightarrow> None)"

definition assignInt ::
  "(int \<Rightarrow> ErrorResponse) \<Rightarrow> scalar \<Rightarrow> ErrorResponse option" where
  "assignInt upd v = (case v of SInt n \<Rightarrow> Some (upd n) | SString s \<Rightarrow> None)"

definition assign :: "string \<Rightarrow> scalar \<Rightarrow> ErrorResponse \<Rightarrow> ErrorResponse option" where
  "assign key v e =
     (if key = ''code'' then assignInt (\<lambda>n. e\<lparr>Code := n\<rparr>) v
      else if key = ''error'' then assignString (\<lambda>s. e\<lparr>ErrorMessage := s\<rparr>) v
      else if key = ''message'' then assignString (\<lambda>s. e\<lparr>ErrorDescription := s\<rparr>) v
      else if key = ''http_reason'' then assignString (\<lambda>s. e\<lparr>HTTPReason := s\<rparr>) v
      else if key = ''http_status'' then assignInt (\<lambda>n. e\<lparr>HTTPStatus := n\<rparr>) v
      else if key = ''path'' then assignString (\<lambda>s. e\<lparr>Path := s\<rparr>) v
      else if key = ''timestamp'' then assignString (\<lambda>s. e\<lparr>Timestamp := s\<rparr>) v
      else if key = ''request_id'' then assignString (\<lambda>s. e\<lparr>RequestID := s\<rparr>) v
      else if key = ''transaction_error'' then assignString (\<lambda>s. e\<lparr>TransactionError := s\<rparr>) v
      else if map lowerByte key \<in> set tags then None
      else Some e)"

definition isSpace :: "char \<Rightarrow> bool" where
  "isSpace c \<longleftrightarrow> c \<in> set [CHR '' '', CHR 0x09, CHR 0x0A, CHR 0x0D]"

definition skipSpace :: "string \<Rightarrow> string" where
  "skipSpace s = dropWhile isSpace s"

definition plainStringByte :: "char \<Rightarrow> bool" where
  "plainStringByte c \<longleftrightarrow> CHR 0x20 \<le> c \<and> c \<le> CHR 0x7E \<and> c \<noteq> CHR 0x22 \<and> c \<noteq> CHR 0x5C"

definition readString :: "string \<Rightarrow> (string \<times> string) option" where
  "readString s =
     (case s of
        [] \<Rightarrow> None
      | c # cs \<Rightarrow>
          (case Cut cs (CHR 0x22) of
             (str, rest, closed) \<Rightarrow>
               if c = CHR 0x22 \<and> closed \<and> list_all plainStringByte str
               then Some (str, rest) else None))"

definition digitsValue :: "string \<Rightarrow> int" where
  "digitsValue ds = foldl (\<lambda>a d. 10 * a + (int (of_char d) - 48)) 0 ds"

definition readInt :: "string \<Rightarrow> (int \<times> string) option" where
  "readInt s =
     (let neg = (take 1 s = ''-'');
          s1 = (if neg then drop 1 s else s);
          ds = takeWhile isDigit s1;
          rest = dropWhile isDigit s1
      in if ds = [] \<or> 9 < length ds \<or> (1 < length ds \<and> take 1 ds = ''0'') then None
         else Some (if neg then - digitsValue ds else digitsValue ds, rest))"

definition readScalar :: "string \<Rightarrow> (scalar \<times> string) option" where
  "readScalar s =
     (if take 1 s = [CHR 0x22] then map_option (\<lambda>(t, rest). (SString t, rest)) (readString s)
      else map_option (\<lambda>(n, rest). (SInt n, rest)) (readInt s))"

text \<open>
  The members of the object, from the first byte of a key on. The first argument bounds
  the number of members by the length of the body; a body that exceeded it would be left
  to the library like any other the model does not read.
\<close>

fun readMembers :: "nat \<Rightarrow> string \<Rightarrow> ErrorResponse \<Rightarrow> ErrorResponse option" where
  "readMembers 0 s e = None"
| "readMembers (Suc n) s e =
     (case readString s of
        None \<Rightarrow> None
      | Some (key, s1) \<Rightarrow>
          (case skipSpace s1 of
             [] \<Rightarrow> None
           | c # s2 \<Rightarrow>
               if c \<noteq> CHR '':'' then None
               else
                 (case readScalar (skipSpace s2) of
                    None \<Rightarrow> None
                  | Some (v, s3) \<Rightarrow>
                      (case assign key v e of
                         None \<Rightarrow> None
                       | Some e' \<Rightarrow>
                           (case skipSpace s3 of
                              [] \<Rightarrow> None
                            | d # s4 \<Rightarrow>
                                if d = CHR '','' then readMembers n (skipSpace s4) e'
                                else if d = CHR ''}'' \<and> skipSpace s4 = [] then Some e'
                                else None)))))"

definition Decode_plain :: "string \<Rightarrow> ErrorResponse option" where
  "Decode_plain input =
     (case skipSpace input of
        [] \<Rightarrow> None
      | c # s \<Rightarrow>
          if c \<noteq> CHR ''{'' then None
          else
            (case skipSpace s of
               [] \<Rightarrow> None
             | d # s' \<Rightarrow>
                 if d = CHR ''}'' then (if skipSpace s' = [] then Some ErrorResponse_zero else None)
                 else readMembers (length input) (d # s') ErrorResponse_zero))"

definition Decode_ErrorResponse ::
  "(string \<Rightarrow> error + ErrorResponse) \<Rightarrow> string \<Rightarrow> error + ErrorResponse" where
  "Decode_ErrorResponse lib input =
     (case Decode_plain input of Some errRes \<Rightarrow> Inr errRes | None \<Rightarrow> lib input)"

section \<open>The client (\<^verbatim>\<open>optimize/billwerk.go\<close>)\<close>

text \<open>
  \<^verbatim>\<open>BaseURL\<close> is a package-level \<^verbatim>\<open>var\<close>, exported and assignable: it is state of the
  package, not of a client. The record \<open>globals\<close> is that state, \<open>init_globals\<close> its value
  when the package is loaded.
\<close>

record globals =
  BaseURL :: string

definition init_globals :: globals where
  "init_globals = \<lparr>BaseURL = ''https://api.reepay.com/v1''\<rparr>"

record Response =
  StatusCode :: int
  Body :: string

text \<open>
  An \<^verbatim>\<open>http.Client\<close> has a timeout (in nanoseconds) and a transport; a nil transport
  stands for \<^verbatim>\<open>http.DefaultTransport\<close>, the network, which is the parameter \<open>net\<close>.
\<close>

record Client =
  Timeout :: int
  Transport :: "(Request \<Rightarrow> error + Response) option"

definition Second :: int where
  "Second = 1000000000"

definition Client_Do :: "(Request \<Rightarrow> error + Response) \<Rightarrow> Client \<Rightarrow> Request \<Rightarrow> error + Response" where
  "Client_Do net c req = (case Transport c of None \<Rightarrow> net req | Some t \<Rightarrow> t req)"

record Billwerk =
  apiKey :: string
  apiKeyB64 :: string
  httpClient :: "Client option"

type_synonym Option = "Billwerk \<Rightarrow> Billwerk"

definition WithHTTPClient :: "Client option \<Rightarrow> Option" where
  "WithHTTPClient client = (\<lambda>billwerk. billwerk\<lparr>httpClient := client\<rparr>)"

definition New :: "string \<Rightarrow> Option list \<Rightarrow> Billwerk" where
  "New key opts =
     (let b = \<lparr>apiKey = key, apiKeyB64 = [],
               httpClient = Some \<lparr>Timeout = 10 * Second, Transport = None\<rparr>\<rparr>
      in foldl (\<lambda>b opt. opt b) b opts)"

definition newBillwerkRequest :: "globals \<Rightarrow> Billwerk \<Rightarrow> Context option \<Rightarrow> request" where
  "newBillwerkRequest g b c =
     WithHeader ''Accept'' ''application/json; charset=utf-8''
       (WithBasicAuth (apiKey b) []
         (WithBaseURL (BaseURL g) (request_New c)))"

definition StatusOK :: int where "StatusOK = 200"
definition StatusBadRequest :: int where "StatusBadRequest = 400"

text \<open>
  \<open>Do\<close> either panics (the client pointer is nil) or returns its error, \<open>None\<close> for nil,
  together with the destination as the call leaves it. The destination \<open>v\<close> is \<open>None\<close>
  for a nil interface. The two uses of \<^verbatim>\<open>json.NewDecoder(res.Body).Decode\<close> are the
  parameters \<open>decodeError\<close> (into a fresh \<^verbatim>\<open>ErrorResponse\<close>) and \<open>decode\<close> (into the
  destination, which a failing decode may already have changed). The deferred
  \<^verbatim>\<open>Close\<close> of the body has no effect on the result and is not modelled.
\<close>

datatype 'a outcome = Panic | Return 'a

definition Do ::
  "(Request \<Rightarrow> error + Response) \<Rightarrow> (string \<Rightarrow> error + ErrorResponse) \<Rightarrow>
   (string \<Rightarrow> 'a \<Rightarrow> error option \<times> 'a) \<Rightarrow>
   Billwerk \<Rightarrow> Request \<Rightarrow> 'a option \<Rightarrow> (error option \<times> 'a option) outcome" where
  "Do net decodeError decode b req v =
     (case httpClient b of
        None \<Rightarrow> Panic
      | Some client \<Rightarrow>
          (case Client_Do net client req of
             Inl err \<Rightarrow> Return (Some err, v)
           | Inr res \<Rightarrow>
               if StatusCode res < StatusOK \<or> StatusCode res \<ge> StatusBadRequest then
                 (case decodeError (Body res) of
                    Inr errRes \<Rightarrow> Return (Some (APIError errRes), v)
                  | Inl err \<Rightarrow>
                      Return (Some (Errorf_d ''unknown error, status code: '' (StatusCode res)), v))
               else
                 (case v of
                    None \<Rightarrow> Return (None, None)
                  | Some d \<Rightarrow>
                      (case decode (Body res) d of
                         (Some err, d') \<Rightarrow>
                           Return (Some (Errorf_w ''failed to decode response body: '' err), Some d')
                       | (None, d') \<Rightarrow> Return (None, Some d')))))"







section \<open>Sample environments\<close>

text \<open>
  Stand-ins for what lies outside the library, used where a statement is instantiated:
  a client whose transport answers every request with one fixed response, a network that
  is down, a request constructor that accepts every URL text and keeps it as the path, and
  JSON decoders that reject their input, and a library that declines whatever the model
  leaves to it. \<open>body422\<close> is the error body of the specification's example and
  \<open>errRes422\<close> the \<^verbatim>\<open>ErrorResponse\<close> with the three fields of that body.
\<close>

definition body422 :: string where
  \<open>body422 = ''{"code":105,"error":"invalid_handle","message":"Handle already exists"}''\<close>

definition errRes422 :: ErrorResponse where
  "errRes422 =
     \<lparr>Code = 105, ErrorMessage = ''invalid_handle'', ErrorDescription = ''Handle already exists'',
      HTTPReason = [], HTTPStatus = 0, Path = [], Timestamp = [], RequestID = [],
      TransactionError = []\<rparr>"

definition stubClient :: "Response \<Rightarrow> Client" where
  "stubClient res = \<lparr>Timeout = 10 * Second, Transport = Some (\<lambda>req. Inr res)\<rparr>"

definition noNetwork :: "Request \<Rightarrow> error + Response" where
  "noNetwork req = Inl (ErrorString ''dial tcp: network is unreachable'')"

definition stubNewRequest :: newRequest where
  "stubNewRequest c m u b =
     (if c = None then Inl (ErrorString ''net/http: nil Context'')
      else Inr \<lparr>Method = m,
                URL = \<lparr>Scheme = [], Opaque = [], User = None, Host = [], URLPath = u,
                       RawPath = [], OmitHost = False, ForceQuery = False, RawQuery = [],
                       Fragment = [], RawFragment = []\<rparr>,
                Header = Map.empty, ReqBody = b\<rparr>)"

definition sampleRequest :: Request where
  "sampleRequest =
     \<lparr>Method = ''GET'',
      URL = \<lparr>Scheme = ''https'', Opaque = [], User = None, Host = ''api.reepay.com'',
             URLPath = ''/v1/plan'', RawPath = [], OmitHost = False, ForceQuery = False,
             RawQuery = [], Fragment = [], RawFragment = []\<rparr>,
      Header = Map.empty, ReqBody = None\<rparr>"

definition rejectAll :: "string \<Rightarrow> error + ErrorResponse" where
  "rejectAll s = Inl (ErrorString ''invalid character in JSON text'')"

definition rejectInto :: "string \<Rightarrow> 'a \<Rightarrow> error option \<times> 'a" where
  "rejectInto s d = (Some (ErrorString ''invalid character in JSON text''), d)"

definition noLibrary :: newRequest where
  "noLibrary c m u b = Inl (ErrorString ''not of the plain form'')"


section \<open>The error model and \<open>Do\<close>\<close>

text \<open>
  Claim C1. When the transport returns a response whose status code is below 200 or at
  least 400, \<open>Do\<close> decodes the body as an \<^verbatim>\<open>ErrorResponse\<close>: if that succeeds the
  decoded value is the error returned; if it fails, the error returned is a plain error
  whose text holds the status code and nothing else of the response. The destination is
  left as it was.
\<close>

theorem Do_error_status:
  assumes "httpClient b = Some client"
    and "Client_Do net client req = Inr res"
    and "StatusCode res < 200 \<or> 400 \<le> StatusCode res"
  shows "Do net decodeError decode b req v =
           Return (Some (case decodeError (Body res) of
                           Inr errRes \<Rightarrow> APIError errRes
                         | Inl err \<Rightarrow>
                             ErrorString (''unknown error, status code: '' @ itoa (StatusCode res))),
                   v)"
  using assms
  by (auto simp: Do_def StatusOK_def StatusBadRequest_def Errorf_d_def split: sum.splits)

theorem Do_error_status_witness:
  "httpClient (New ''key'' [WithHTTPClient (Some (stubClient \<lparr>StatusCode = 500, Body = ''<html>oops</html>''\<rparr>))])
     = Some (stubClient \<lparr>StatusCode = 500, Body = ''<html>oops</html>''\<rparr>) \<and>
   Client_Do noNetwork (stubClient \<lparr>StatusCode = 500, Body = ''<html>oops</html>''\<rparr>) sampleRequest
     = Inr \<lparr>StatusCode = 500, Body = ''<html>oops</html>''\<rparr> \<and>
   (StatusCode \<lparr>StatusCode = 500, Body = ''<html>oops</html>''\<rparr> < 200 \<or>
    400 \<le> StatusCode \<lparr>StatusCode = 500, Body = ''<html>oops</html>''\<rparr>) \<and>
   Do noNetwork rejectAll rejectInto
      (New ''key'' [WithHTTPClient (Some (stubClient \<lparr>StatusCode = 500, Body = ''<html>oops</html>''\<rparr>))])
      sampleRequest (Some (0::nat))
     = Return (Some (ErrorString ''unknown error, status code: 500''), Some 0)"
  using Do_error_status [where b = "New ''key'' [WithHTTPClient (Some (stubClient \<lparr>StatusCode = 500, Body = ''<html>oops</html>''\<rparr>))]"
      and client = "stubClient \<lparr>StatusCode = 500, Body = ''<html>oops</html>''\<rparr>" and net = noNetwork
      and req = sampleRequest and res = "\<lparr>StatusCode = 500, Body = ''<html>oops</html>''\<rparr>"
      and decodeError = rejectAll and decode = rejectInto and v = "Some (0::nat)"]
  by (simp add: New_def WithHTTPClient_def Client_Do_def stubClient_def rejectAll_def
        itoa_def utoa.simps digit_def)

text \<open>
  Claim C2. When the status code is in the range from 200 up to, not including, 400:
  with a nil destination \<open>Do\<close> returns no error, whatever the body and whatever the
  decoders would say about it; with a destination, the body is decoded into it, and a
  failing decode is returned wrapped, with the decoder's error as the cause.
\<close>

theorem Do_success_status:
  assumes "httpClient b = Some client"
    and "Client_Do net client req = Inr res"
    and "200 \<le> StatusCode res" and "StatusCode res < 400"
  shows "Do net decodeError decode b req None = Return (None, None) \<and>
         Do net decodeError decode b req (Some d) =
           Return (case decode (Body res) d of
                     (None, d') \<Rightarrow> (None, Some d')
                   | (Some err, d') \<Rightarrow>
                       (Some (WrapError (''failed to decode response body: '' @ errorText err) err),
                        Some d'))"
  using assms
  by (auto simp: Do_def StatusOK_def StatusBadRequest_def Errorf_w_def split: prod.splits option.splits)

theorem Do_success_status_witness:
  "httpClient (New ''key'' [WithHTTPClient (Some (stubClient \<lparr>StatusCode = 204, Body = ''not json''\<rparr>))])
     = Some (stubClient \<lparr>StatusCode = 204, Body = ''not json''\<rparr>) \<and>
   Client_Do noNetwork (stubClient \<lparr>StatusCode = 204, Body = ''not json''\<rparr>) sampleRequest
     = Inr \<lparr>StatusCode = 204, Body = ''not json''\<rparr> \<and>
   200 \<le> StatusCode \<lparr>StatusCode = 204, Body = ''not json''\<rparr> \<and>
   StatusCode \<lparr>StatusCode = 204, Body = ''not json''\<rparr> < 400 \<and>
   Do noNetwork rejectAll rejectInto
      (New ''key'' [WithHTTPClient (Some (stubClient \<lparr>StatusCode = 204, Body = ''not json''\<rparr>))])
      sampleRequest (None :: nat option)
     = Return (None, None) \<and>
   Do noNetwork rejectAll rejectInto
      (New ''key'' [WithHTTPClient (Some (stubClient \<lparr>StatusCode = 204, Body = ''not json''\<rparr>))])
      sampleRequest (Some (7::nat))
     = Return (Some (WrapError ''failed to decode response body: invalid character in JSON text''
                       (ErrorString ''invalid character in JSON text'')), Some 7)"
  using Do_success_status [where b = "New ''key'' [WithHTTPClient (Some (stubClient \<lparr>StatusCode = 204, Body = ''not json''\<rparr>))]"
      and client = "stubClient \<lparr>StatusCode = 204, Body = ''not json''\<rparr>" and net = noNetwork
      and req = sampleRequest and res = "\<lparr>StatusCode = 204, Body = ''not json''\<rparr>"
      and decodeError = rejectAll and decode = rejectInto and d = "7::nat"]
  by (simp add: New_def WithHTTPClient_def Client_Do_def stubClient_def rejectInto_def)

section \<open>The builder\<close>

text \<open>
  Claim C7. When marshalling the value fails, \<open>WithJSONBody\<close> still returns a builder:
  its body is the empty buffer, it is the builder that \<open>WithContentTypeJSON\<close> and an
  empty body give, and materializing it behaves as materializing that builder does, so the
  marshalling error reaches nobody.
\<close>

theorem WithJSONBody_marshal_failure:
  assumes "marshal v = Inl err"
  shows "body (WithJSONBody marshal v r) = Some [] \<and>
         WithJSONBody marshal v r = WithBody (Some []) (WithContentTypeJSON r) \<and>
         POST Version newRequest (WithJSONBody marshal v r) =
           POST Version newRequest (WithBody (Some []) (WithContentTypeJSON r))"
  using assms
  by (simp add: WithJSONBody_def Encoder_Encode_def WithBody_def Let_def)

theorem WithJSONBody_marshal_failure_witness:
  "(\<lambda>v::unit. Inl (ErrorString ''json: unsupported type'') :: error + string) () =
     Inl (ErrorString ''json: unsupported type'') \<and>
   body (WithJSONBody (\<lambda>v::unit. Inl (ErrorString ''json: unsupported type'')) ()
           (request_New (Some (Background 0)))) = Some [] \<and>
   fst (POST ''1.0.0'' stubNewRequest
          (WithJSONBody (\<lambda>v::unit. Inl (ErrorString ''json: unsupported type'')) ()
             (request_New (Some (Background 0))))) =
   fst (POST ''1.0.0'' stubNewRequest
          (WithBody (Some []) (WithContentTypeJSON (request_New (Some (Background 0))))))"
  using WithJSONBody_marshal_failure [where marshal = "\<lambda>v::unit. Inl (ErrorString ''json: unsupported type'')"
      and v = "()" and err = "ErrorString ''json: unsupported type''"
      and r = "request_New (Some (Background 0))" and Version = "''1.0.0''"
      and newRequest = stubNewRequest]
  by (simp add: WithBody_def)

text \<open>What a successful \<open>build\<close> returns, for the proofs below.\<close>

lemma canonical_User_Agent: "CanonicalMIMEHeaderKey ''User-Agent'' = ''User-Agent''"
  by code_simp

lemma canonical_user_agent: "CanonicalMIMEHeaderKey ''user-agent'' = ''User-Agent''"
  by code_simp

lemma canonical_Authorization: "CanonicalMIMEHeaderKey ''Authorization'' = ''Authorization''"
  by code_simp

lemma canonical_Accept: "CanonicalMIMEHeaderKey ''Accept'' = ''Accept''"
  by code_simp

lemma build_Inr:
  assumes "build Version newRequest r = (Inr req, r')"
  obtains req0 where "newRequest (ctx r) (method' r) (baseURL r @ endpoint r) (body r) = Inr req0"
    and "req = req0\<lparr>Header := (header r)(''User-Agent'' \<mapsto> [UserAgent Version]),
                     URL := (URL req0)\<lparr>RawQuery := Encode (params r)\<rparr>\<rparr>"
    and "r' = r\<lparr>header := (header r)(''User-Agent'' \<mapsto> [UserAgent Version])\<rparr>"
  using assms
  by (auto simp: build_def Let_def Header_Set_def canonical_User_Agent split: sum.splits)

text \<open>
  Claim C8. Every request materialized by \<open>build\<close> or by one of the four terminal
  methods carries the library's User-Agent, and only that one, under the key
  \<open>User-Agent\<close>. The builder \<open>r\<close> is arbitrary, so this holds whatever headers were
  set on it before, a User-Agent header of the caller's included: \<open>WithHeader\<close> stores
  it under the canonical key, where \<open>build\<close> replaces it.
\<close>

theorem build_User_Agent:
  assumes "terminal \<in> {build, GET, POST, PUT, DELETE}"
    and "terminal Version newRequest r = (Inr req, r')"
  shows "Header req ''User-Agent'' = Some [UserAgent Version] \<and>
         Header_Get (Header req) ''User-Agent'' = UserAgent Version"
proof -
  from assms obtain r0 where "build Version newRequest r0 = (Inr req, r')"
    by (auto simp: GET_def POST_def PUT_def DELETE_def)
  then have "Header req = (header r0)(''User-Agent'' \<mapsto> [UserAgent Version])"
    by (auto elim!: build_Inr)
  then show ?thesis
    by (simp add: Header_Get_def canonical_User_Agent)
qed

theorem build_User_Agent_witness:
  "GET \<in> {build, GET, POST, PUT, DELETE} \<and>
   (\<exists>req r'.
      GET ''1.0.0'' stubNewRequest
        (WithHeader ''user-agent'' ''curl/8.0'' (request_New (Some (Background 0))))
        = (Inr req, r') \<and>
      Header_Get (Header req) ''User-Agent'' = ''go-billwerk/1.0.0'' \<and>
      Header req ''user-agent'' = None)"
proof -
  let ?r = "WithHeader ''user-agent'' ''curl/8.0'' (request_New (Some (Background 0)))"
  have t: "GET \<in> {build, GET, POST, PUT, DELETE}"
    by simp
  obtain req r' where b: "GET ''1.0.0'' stubNewRequest ?r = (Inr req, r')"
    by (simp add: GET_def build_def stubNewRequest_def WithHeader_def request_New_def)
  from build_User_Agent [OF t b]
  have u: "Header_Get (Header req) ''User-Agent'' = ''go-billwerk/1.0.0''"
    by (simp add: UserAgent_def)
  from b have "build ''1.0.0'' stubNewRequest (?r\<lparr>method' := MethodGet\<rparr>) = (Inr req, r')"
    by (simp add: GET_def)
  then have n: "Header req ''user-agent'' = None"
    by (auto elim!: build_Inr
        simp: WithHeader_def request_New_def Header_Set_def canonical_user_agent)
  have "\<exists>req r'. GET ''1.0.0'' stubNewRequest ?r = (Inr req, r') \<and>
          Header_Get (Header req) ''User-Agent'' = ''go-billwerk/1.0.0'' \<and>
          Header req ''user-agent'' = None"
    by (rule exI [of _ req], rule exI [of _ r']) (simp only: b u n simp_thms)
  with t show ?thesis ..
qed

section \<open>The query string\<close>

text \<open>The two nested loops of \<open>Encode\<close> join the rendered pairs with \<open>&\<close>.\<close>

lemma foldl_writePair_pairs:
  "foldl (writePair (QueryEscape k)) buf vs =
     foldl (\<lambda>buf p. writePair (QueryEscape (fst p)) buf (snd p)) buf (map (Pair k) vs)"
  by (induction vs arbitrary: buf) simp_all

lemma foldl_keys_pairs:
  "foldl (\<lambda>buf k. foldl (writePair (QueryEscape k)) buf (f k)) buf ks =
     foldl (\<lambda>buf p. writePair (QueryEscape (fst p)) buf (snd p)) buf
       (concat (map (\<lambda>k. map (Pair k) (f k)) ks))"
  by (induction ks arbitrary: buf) (simp_all add: foldl_writePair_pairs)

lemma writePair_renderPair:
  "writePair (QueryEscape (fst p)) buf (snd p) =
     (if buf = [] then renderPair p else buf @ ''&'' @ renderPair p)"
  by (simp add: writePair_def renderPair_def)

lemma renderPair_nonempty: "renderPair p \<noteq> []"
  by (simp add: renderPair_def)

lemma foldl_pairs_nonempty:
  "buf \<noteq> [] \<Longrightarrow>
   foldl (\<lambda>buf p. writePair (QueryEscape (fst p)) buf (snd p)) buf ps =
     buf @ concat (map (\<lambda>p. ''&'' @ renderPair p) ps)"
  by (induction ps arbitrary: buf) (simp_all add: writePair_renderPair)

lemma foldl_pairs_join:
  "foldl (\<lambda>buf p. writePair (QueryEscape (fst p)) buf (snd p)) [] ps =
     join ''&'' (map renderPair ps)"
proof (cases ps)
  case Nil
  then show ?thesis by (simp add: join_def)
next
  case (Cons p ps')
  then show ?thesis
    using foldl_pairs_nonempty [OF renderPair_nonempty, of p ps']
    by (simp add: join_def writePair_renderPair comp_def)
qed

lemma Encode_join: "Encode m = join ''&'' (map renderPair (query_pairs m))"
proof (cases "m = []")
  case True
  then show ?thesis
    by (simp add: Encode_def query_pairs_def Values_keys_def join_def)
next
  case False
  then show ?thesis
    by (simp add: Encode_def query_pairs_def foldl_keys_pairs foldl_pairs_join)
qed

text \<open>The keys are sorted and listed once; each key contributes its own values.\<close>

lemma Values_keys_sorted: "sorted (Values_keys m)"
  by (simp add: Values_keys_def)

lemma Values_keys_distinct: "distinct (Values_keys m)"
  by (simp add: Values_keys_def)

lemma Values_keys_set: "set (Values_keys m) = fst ` set m"
  by (simp add: Values_keys_def)

lemma Values_lookup_absent: "k \<notin> fst ` set m \<Longrightarrow> Values_lookup m k = []"
  by (simp add: Values_lookup_def map_of_eq_None_iff [THEN iffD2])

lemma filter_key_groups:
  "distinct ks \<Longrightarrow>
   filter (\<lambda>p. fst p = k) (concat (map (\<lambda>k'. map (Pair k') (f k')) ks)) =
     (if k \<in> set ks then map (Pair k) (f k) else [])"
proof (induction ks)
  case Nil
  then show ?case by simp
next
  case (Cons a ks)
  have same: "filter (\<lambda>p. fst p = k) (map (Pair a) (f a)) = (if a = k then map (Pair a) (f a) else [])"
    by (induction "f a") (auto simp: filter_map comp_def)
  from Cons show ?case
    by (auto simp: same)
qed

lemma query_pairs_key:
  "filter (\<lambda>p. fst p = k) (query_pairs m) = map (Pair k) (Values_lookup m k)"
  unfolding query_pairs_def
  by (simp add: filter_key_groups [OF Values_keys_distinct] Values_keys_set Values_lookup_absent)

lemma sorted_key_groups:
  "sorted ks \<Longrightarrow> sorted (map fst (concat (map (\<lambda>k. map (Pair k) (f k)) ks)))"
proof (induction ks)
  case Nil
  then show ?case by simp
next
  case (Cons a ks)
  have fsts: "map fst (map (Pair a) (f a)) = replicate (length (f a)) a"
    by (simp add: comp_def map_replicate_const)
  have rest: "set (map fst (concat (map (\<lambda>k. map (Pair k) (f k)) ks))) \<subseteq> set ks"
    by auto
  from Cons have "\<forall>y\<in>set ks. a \<le> y" and "sorted (map fst (concat (map (\<lambda>k. map (Pair k) (f k)) ks)))"
    by simp_all
  with rest show ?case
    by (auto simp add: fsts sorted_append simp del: map_map)
qed

lemma query_pairs_sorted: "sorted (map fst (query_pairs m))"
  unfolding query_pairs_def by (rule sorted_key_groups [OF Values_keys_sorted])

lemma Values_lookup_Add:
  "Values_lookup (Values_Add k v m) k' =
     (if k' = k then Values_lookup m k @ [v] else Values_lookup m k')"
  by (simp add: Values_lookup_def Values_Add_def update_conv')

lemma Values_lookup_AddParams:
  "Values_lookup (params (foldl (\<lambda>r v. AddParam k v r) r vs)) k' =
     (if k' = k then Values_lookup (params r) k @ vs else Values_lookup (params r) k')"
  by (induction vs arbitrary: r) (simp_all add: AddParam_def Values_lookup_Add)

text \<open>An escaped key or value holds neither of the separators \<open>&\<close> and \<open>=\<close>.\<close>

lemma shouldEscape_separators:
  "shouldEscape (CHR ''&'')" "shouldEscape (CHR ''='')"
  by code_simp+

lemma upperhex_nth: "i < 16 \<Longrightarrow> upperhex ! i \<in> set upperhex"
  by (rule nth_mem) (simp add: upperhex_def)

lemma escapeByte_no_separator:
  "CHR ''&'' \<notin> set (escapeByte c) \<and> CHR ''='' \<notin> set (escapeByte c)"
proof (cases "c = CHR '' ''")
  case True
  then show ?thesis by (simp add: escapeByte_def)
next
  case space: False
  show ?thesis
  proof (cases "shouldEscape c")
    case True
    have "of_char c div 16 < (16::nat)"
      by (rule less_mult_imp_div_less) simp
    moreover have "of_char c mod 16 < (16::nat)"
      by simp
    ultimately have "upperhex ! (of_char c div 16) \<in> set upperhex"
      and "upperhex ! (of_char c mod 16) \<in> set upperhex"
      by (simp_all add: upperhex_nth)
    moreover have "CHR ''&'' \<notin> set upperhex" "CHR ''='' \<notin> set upperhex"
      by (simp_all add: upperhex_def)
    ultimately show ?thesis
      using space True by (auto simp: escapeByte_def)
  next
    case False
    with shouldEscape_separators have "c \<noteq> CHR ''&''" "c \<noteq> CHR ''=''"
      by auto
    with space False show ?thesis
      by (simp add: escapeByte_def)
  qed
qed

lemma QueryEscape_no_separator:
  "CHR ''&'' \<notin> set (QueryEscape s) \<and> CHR ''='' \<notin> set (QueryEscape s)"
  by (induction s) (simp_all add: QueryEscape_def escapeByte_no_separator)

lemma renderPair_no_ampersand: "CHR ''&'' \<notin> set (renderPair p)"
  by (simp add: renderPair_def QueryEscape_no_separator)

lemma build_RawQuery:
  "build Version newRequest r = (Inr req, r') \<Longrightarrow> RawQuery (URL req) = Encode (params r)"
  by (auto elim!: build_Inr)

text \<open>A sample builder and its query string, evaluated.\<close>

lemma Encode_sample:
  "Encode [(''z'', [''2'', ''1'']), (''a'', [''x y''])] = ''a=x+y&z=2&z=1''"
  by code_simp

lemma params_sample:
  "params (AddParam ''z'' ''1'' (AddParam ''a'' ''x y'' (AddParam ''z'' ''2'' (request_New c))))
     = [(''z'', [''2'', ''1'']), (''a'', [''x y''])]"
  by (simp add: AddParam_def Values_Add_def Values_lookup_def request_New_def)

text \<open>
  Claim C4. After the calls \<open>AddParam k v\<close> for the values \<open>vs\<close> in turn, the query
  string of the materialized request is the rendered pairs joined by \<open>&\<close>, no rendered
  pair holds an \<open>&\<close> of its own, and the pairs of the key \<open>k\<close> are exactly the values
  \<open>k\<close> had before followed by \<open>vs\<close>, in the order of the calls: one occurrence for
  each call, and the earlier values untouched.
\<close>

theorem AddParam_occurrences:
  assumes "build Version newRequest (foldl (\<lambda>r v. AddParam k v r) r vs) = (Inr req, r')"
  shows "let ps = query_pairs (params (foldl (\<lambda>r v. AddParam k v r) r vs))
         in RawQuery (URL req) = join ''&'' (map renderPair ps) \<and>
            list_all (\<lambda>p. CHR ''&'' \<notin> set (renderPair p)) ps \<and>
            filter (\<lambda>p. fst p = k) ps = map (Pair k) (Values_lookup (params r) k @ vs)"
  using build_RawQuery [OF assms]
  by (simp add: Let_def Encode_join query_pairs_key Values_lookup_AddParams
      renderPair_no_ampersand list_all_iff)

theorem AddParam_occurrences_witness:
  "\<exists>req r'.
     build ''1.0.0'' stubNewRequest
       (foldl (\<lambda>r v. AddParam ''z'' v r)
          (AddParam ''a'' ''x y'' (AddParam ''z'' ''2'' (request_New (Some (Background 0))))) [''1'', ''0''])
       = (Inr req, r') \<and>
     RawQuery (URL req) = ''a=x+y&z=2&z=1&z=0'' \<and>
     filter (\<lambda>p. fst p = ''z'')
       (query_pairs (params (foldl (\<lambda>r v. AddParam ''z'' v r)
          (AddParam ''a'' ''x y'' (AddParam ''z'' ''2'' (request_New (Some (Background 0))))) [''1'', ''0''])))
       = [(''z'', ''2''), (''z'', ''1''), (''z'', ''0'')]"
proof -
  let ?base = "AddParam ''a'' ''x y'' (AddParam ''z'' ''2'' (request_New (Some (Background 0))))"
  let ?r = "foldl (\<lambda>r v. AddParam ''z'' v r) ?base [''1'', ''0'']"
  have p: "params ?r = [(''z'', [''2'', ''1'', ''0'']), (''a'', [''x y''])]"
    by (simp add: AddParam_def Values_Add_def Values_lookup_def request_New_def)
  have e: "Encode [(''z'', [''2'', ''1'', ''0'']), (''a'', [''x y''])] = ''a=x+y&z=2&z=1&z=0''"
    by code_simp
  have l: "Values_lookup (params ?base) ''z'' = [''2'']"
    by (simp add: AddParam_def Values_Add_def Values_lookup_def request_New_def)
  obtain req r' where b: "build ''1.0.0'' stubNewRequest ?r = (Inr req, r')"
    by (simp add: build_def stubNewRequest_def AddParam_def request_New_def)
  have th: "RawQuery (URL req) = join ''&'' (map renderPair (query_pairs (params ?r))) \<and>
            list_all (\<lambda>p. CHR ''&'' \<notin> set (renderPair p)) (query_pairs (params ?r)) \<and>
            filter (\<lambda>p. fst p = ''z'') (query_pairs (params ?r)) =
              map (Pair ''z'') (Values_lookup (params ?base) ''z'' @ [''1'', ''0''])"
    using AddParam_occurrences [OF b] unfolding Let_def .
  from th have "RawQuery (URL req) = Encode (params ?r)"
    by (simp only: Encode_join)
  then have 1: "RawQuery (URL req) = ''a=x+y&z=2&z=1&z=0''"
    by (simp only: p e)
  from th have "filter (\<lambda>p. fst p = ''z'') (query_pairs (params ?r)) =
              map (Pair ''z'') (Values_lookup (params ?base) ''z'' @ [''1'', ''0''])"
    by (rule conjunct2 [THEN conjunct2])
  then have 2: "filter (\<lambda>p. fst p = ''z'') (query_pairs (params ?r)) =
      [(''z'', ''2''), (''z'', ''1''), (''z'', ''0'')]"
    by (simp only: l) simp
  show ?thesis
    by (rule exI [of _ req], rule exI [of _ r']) (simp only: b 1 2 simp_thms)
qed

text \<open>
  Claim C10. The pairs of the query string come in the sorted (bytewise lexicographic)
  order of their keys, whatever the order in which the keys were set or added; the values
  of one key keep the order of its slice, to which \<open>AddParam\<close> appends at the end.
\<close>

theorem Encode_key_order:
  assumes "build Version newRequest r = (Inr req, r')"
  shows "RawQuery (URL req) = join ''&'' (map renderPair (query_pairs (params r))) \<and>
         sorted (map fst (query_pairs (params r))) \<and>
         map snd (filter (\<lambda>p. fst p = k) (query_pairs (params r))) = Values_lookup (params r) k \<and>
         Values_lookup (params (AddParam k v r)) k = Values_lookup (params r) k @ [v]"
  using build_RawQuery [OF assms]
  by (simp add: Encode_join query_pairs_sorted query_pairs_key comp_def AddParam_def
      Values_lookup_Add)

theorem Encode_key_order_witness:
  "\<exists>req r'.
     build ''1.0.0'' stubNewRequest
       (AddParam ''z'' ''1'' (AddParam ''a'' ''x y'' (AddParam ''z'' ''2''
          (request_New (Some (Background 0))))))
       = (Inr req, r') \<and>
     RawQuery (URL req) = ''a=x+y&z=2&z=1'' \<and>
     map fst (query_pairs (params (AddParam ''z'' ''1'' (AddParam ''a'' ''x y'' (AddParam ''z'' ''2''
          (request_New (Some (Background 0)))))))) = [''a'', ''z'', ''z'']"
proof -
  let ?r = "AddParam ''z'' ''1'' (AddParam ''a'' ''x y'' (AddParam ''z'' ''2''
              (request_New (Some (Background 0)))))"
  have "map fst (query_pairs [(''z'', [''2'', ''1'']), (''a'', [''x y''])]) = [''a'', ''z'', ''z'']"
    by code_simp
  then have q: "map fst (query_pairs (params ?r)) = [''a'', ''z'', ''z'']"
    by (simp only: params_sample)
  obtain req r' where b: "build ''1.0.0'' stubNewRequest ?r = (Inr req, r')"
    by (simp add: build_def stubNewRequest_def AddParam_def request_New_def)
  from Encode_key_order [OF b, of "''z''" "''1''"]
  have "RawQuery (URL req) = Encode (params ?r)"
    by (simp only: Encode_join)
  then have 1: "RawQuery (URL req) = ''a=x+y&z=2&z=1''"
    by (simp only: params_sample Encode_sample)
  show ?thesis
    by (rule exI [of _ req], rule exI [of _ r']) (simp only: b 1 q simp_thms)
qed

section \<open>The client's builder\<close>

lemma apiKey_foldl_WithHTTPClient:
  "apiKey (foldl (\<lambda>b opt. opt b) b0 (map WithHTTPClient cs)) = apiKey b0"
  by (induction cs arbitrary: b0) (simp_all add: WithHTTPClient_def)


lemma header_newBillwerkRequest:
  "header (newBillwerkRequest g b c) =
     [''Authorization'' \<mapsto> [''Basic '' @ EncodeToString (apiKey b @ '':'')],
      ''Accept'' \<mapsto> [''application/json; charset=utf-8'']]"
  by (simp add: newBillwerkRequest_def WithHeader_def WithBasicAuth_def WithBaseURL_def
      request_New_def Header_Set_def canonical_Authorization canonical_Accept Let_def)

lemma EncodeToString_key: "EncodeToString ''key:'' = ''a2V5Og==''"
  by (simp add: enc64_def encodeStd_def)

section \<open>The structured error of a response\<close>

lemma Decode_body422: "Decode_plain body422 = Some errRes422"
  by code_simp

text \<open>
  Claim C6. The display string of a structured error is the short message alone when the
  description is empty, and the short message, \<open>": "\<close> and the description otherwise.
  In particular, when the transport answers 422 with the body \<open>body422\<close>, the decoder
  reads the fields \<open>code\<close>, \<open>error\<close> and \<open>message\<close> of that body into \<open>Code\<close>,
  \<open>ErrorMessage\<close> and \<open>ErrorDescription\<close>, and \<open>Do\<close> returns this structured error,
  whose display string is \<open>invalid_handle: Handle already exists\<close>.
\<close>

theorem Error_display:
  "Error e = (if ErrorDescription e = [] then ErrorMessage e
              else ErrorMessage e @ '': '' @ ErrorDescription e) \<and>
   (httpClient b = Some client \<and>
    Client_Do net client req = Inr \<lparr>StatusCode = 422, Body = body422\<rparr> \<longrightarrow>
      Do net (Decode_ErrorResponse lib) decode b req v = Return (Some (APIError errRes422), v) \<and>
      errorText (APIError errRes422) = ''invalid_handle: Handle already exists'')"
proof -
  have "Decode_ErrorResponse lib body422 = Inr errRes422"
    by (simp add: Decode_ErrorResponse_def Decode_body422)
  moreover have "Error errRes422 = ''invalid_handle: Handle already exists''"
    by (simp add: Error_def errRes422_def)
  ultimately show ?thesis
    by (simp add: Error_def Do_def StatusOK_def StatusBadRequest_def)
qed

theorem Error_display_witness:
  "httpClient (New ''key'' [WithHTTPClient (Some (stubClient \<lparr>StatusCode = 422, Body = body422\<rparr>))])
     = Some (stubClient \<lparr>StatusCode = 422, Body = body422\<rparr>) \<and>
   Client_Do noNetwork (stubClient \<lparr>StatusCode = 422, Body = body422\<rparr>) sampleRequest
     = Inr \<lparr>StatusCode = 422, Body = body422\<rparr> \<and>
   Do noNetwork (Decode_ErrorResponse rejectAll) rejectInto
      (New ''key'' [WithHTTPClient (Some (stubClient \<lparr>StatusCode = 422, Body = body422\<rparr>))])
      sampleRequest (Some (0::nat))
     = Return (Some (APIError errRes422), Some 0) \<and>
   errorText (APIError errRes422) = ''invalid_handle: Handle already exists''"
  using Error_display [where b = "New ''key'' [WithHTTPClient (Some (stubClient \<lparr>StatusCode = 422, Body = body422\<rparr>))]"
      and client = "stubClient \<lparr>StatusCode = 422, Body = body422\<rparr>" and net = noNetwork
      and req = sampleRequest and lib = rejectAll and decode = rejectInto
      and v = "Some (0::nat)" and e = errRes422]
  by (simp add: New_def WithHTTPClient_def Client_Do_def stubClient_def errRes422_def)

section \<open>The target of a materialized request\<close>



lemma validMethod_terminal:
  "validMethod MethodGet" "validMethod MethodPost" "validMethod MethodPut" "validMethod MethodDelete"
  by code_simp+








section \<open>The Authorization header\<close>

lemma canonical_Content_Type: "CanonicalMIMEHeaderKey ''Content-Type'' = ''Content-Type''"
  by code_simp

lemma invoke_keeps_Authorization:
  "\<not> setsAuthorization c \<Longrightarrow>
   header (invoke marshal c r) ''Authorization'' = header r ''Authorization''"
  by (cases c)
     (simp_all add: WithBaseURL_def WithEndpoint_def WithParam_def AddParam_def WithHeader_def
        WithContentTypeJSON_def WithBody_def WithJSONBody_def Header_Set_def
        canonical_Content_Type Let_def)

lemma chain_keeps_Authorization:
  "list_all (\<lambda>c. \<not> setsAuthorization c) calls \<Longrightarrow>
   header (chain marshal calls r) ''Authorization'' = header r ''Authorization''"
  unfolding chain_def
  by (induction calls arbitrary: r) (simp_all add: invoke_keeps_Authorization)

lemma terminal_keeps_Authorization:
  assumes "terminal \<in> {build, GET, POST, PUT, DELETE}"
    and "terminal Version newRequest r = (Inr req, r')"
  shows "Header req ''Authorization'' = header r ''Authorization''"
proof -
  from assms obtain r0 where "build Version newRequest r0 = (Inr req, r')"
    and "header r0 = header r"
    by (auto simp: GET_def POST_def PUT_def DELETE_def)
  then show ?thesis
    by (auto elim!: build_Inr)
qed

lemma Parse_reepay_plan:
  "Parse_plain (''https://api.reepay.com/v1'' @ ''/plan'') =
     Some \<lparr>Scheme = ''https'', Opaque = [], User = None, Host = ''api.reepay.com'',
           URLPath = ''/v1/plan'', RawPath = [], OmitHost = False, ForceQuery = False,
           RawQuery = [], Fragment = [], RawFragment = []\<rparr>"
  by code_simp

text \<open>
  Claim C5, as stated, fails: the Authorization header of a builder handed out by a
  client does not hold regardless of other configuration. A later \<open>WithHeader\<close> on the
  same header, in any spelling of its name, replaces the value that
  \<open>newBillwerkRequest\<close> has set.
\<close>

theorem Authorization_overridden_counterexample:
  "Header_Get (header (WithHeader ''authorization'' ''Bearer x''
                 (newBillwerkRequest init_globals (New ''key'' []) (Some (Background 0)))))
       ''Authorization''
     \<noteq> ''Basic '' @ EncodeToString (''key'' @ '':'')"
proof -
  have c: "CanonicalMIMEHeaderKey ''authorization'' = ''Authorization''"
    by code_simp
  have k: "''key'' @ '':'' = ''key:''"
    by simp
  show ?thesis
    unfolding k EncodeToString_key
    by (simp add: WithHeader_def Header_Set_def Header_Get_def c canonical_Authorization)
qed

text \<open>
  Claim C5, amended. For a client made by \<open>New\<close> with the API key \<open>key\<close> and any clients
  given as options, the builder of \<open>newBillwerkRequest\<close> has the Authorization header
  \<open>Basic\<close>, a space and the base64 text of the key followed by a colon (Basic
  authentication with the key as user name and an empty password), and keeps it through
  every chain of calls of which none sets the Authorization header itself: base URL,
  endpoint, parameters set or added, other headers, the content type, a body, a JSON body
  whether or not marshalling succeeds. The request that \<open>build\<close>, \<open>GET\<close>, \<open>POST\<close>,
  \<open>PUT\<close> or \<open>DELETE\<close> then materializes carries the same header.
\<close>

theorem Authorization_kept:
  assumes "list_all (\<lambda>c. \<not> setsAuthorization c) calls"
    and "terminal \<in> {build, GET, POST, PUT, DELETE}"
  shows "Header_Get (header (chain marshal calls
                       (newBillwerkRequest g (New key (map WithHTTPClient cs)) c)))
             ''Authorization''
           = ''Basic '' @ EncodeToString (key @ '':'') \<and>
         (terminal Version newRequest
            (chain marshal calls (newBillwerkRequest g (New key (map WithHTTPClient cs)) c))
            = (Inr req, r') \<longrightarrow>
          Header_Get (Header req) ''Authorization'' = ''Basic '' @ EncodeToString (key @ '':''))"
proof -
  let ?r = "chain marshal calls (newBillwerkRequest g (New key (map WithHTTPClient cs)) c)"
  have key: "apiKey (New key (map WithHTTPClient cs)) = key"
    by (simp add: New_def apiKey_foldl_WithHTTPClient)
  have h: "header ?r ''Authorization'' = Some [''Basic '' @ EncodeToString (key @ '':'')]"
    by (simp add: chain_keeps_Authorization [OF assms(1)] header_newBillwerkRequest key)
  have 1: "Header_Get (header ?r) ''Authorization'' = ''Basic '' @ EncodeToString (key @ '':'')"
    by (simp add: Header_Get_def canonical_Authorization h)
  have 2: "Header_Get (Header req) ''Authorization'' = ''Basic '' @ EncodeToString (key @ '':'')"
    if "terminal Version newRequest ?r = (Inr req, r')"
    by (simp add: Header_Get_def canonical_Authorization h
        terminal_keeps_Authorization [OF assms(2) that])
  from 1 2 show ?thesis by blast
qed

theorem Authorization_kept_witness:
  "list_all (\<lambda>c. \<not> setsAuthorization c)
     [CallWithEndpoint ''/plan'', CallWithParam ''size'' ''10'', CallWithJSONBody ()] \<and>
   POST \<in> {build, GET, POST, PUT, DELETE} \<and>
   Header_Get (header (chain (\<lambda>v. Inr ''{}'')
                 [CallWithEndpoint ''/plan'', CallWithParam ''size'' ''10'', CallWithJSONBody ()]
                 (newBillwerkRequest init_globals (New ''key'' []) (Some (Background 0)))))
       ''Authorization''
     = ''Basic a2V5Og=='' \<and>
   (\<exists>req r'.
      POST ''1.0.0'' (NewRequestWithContext noLibrary)
        (chain (\<lambda>v. Inr ''{}'')
           [CallWithEndpoint ''/plan'', CallWithParam ''size'' ''10'', CallWithJSONBody ()]
           (newBillwerkRequest init_globals (New ''key'' []) (Some (Background 0))))
        = (Inr req, r') \<and>
      Header_Get (Header req) ''Authorization'' = ''Basic a2V5Og=='')"
proof -
  let ?calls = "[CallWithEndpoint ''/plan'', CallWithParam ''size'' ''10'', CallWithJSONBody ()]"
  let ?r = "chain (\<lambda>v. Inr ''{}'') ?calls
              (newBillwerkRequest init_globals (New ''key'' []) (Some (Background 0)))"
  have 1: "list_all (\<lambda>c. \<not> setsAuthorization c) ?calls"
    by simp
  have 2: "POST \<in> {build, GET, POST, PUT, DELETE}"
    by simp
  have "''key'' @ '':'' = ''key:''"
    by simp
  then have k: "''Basic '' @ EncodeToString (''key'' @ '':'') = ''Basic a2V5Og==''"
    by (simp only: EncodeToString_key append.simps)
  have "\<exists>req r'. POST ''1.0.0'' (NewRequestWithContext noLibrary) ?r = (Inr req, r')"
    using Parse_reepay_plan validMethod_terminal(2)
    by (simp add: POST_def build_def NewRequestWithContext_def chain_def WithEndpoint_def
        WithParam_def WithJSONBody_def WithContentTypeJSON_def WithHeader_def
        newBillwerkRequest_def WithBasicAuth_def WithBaseURL_def request_New_def
        init_globals_def Let_def)
  then obtain req r' where p: "POST ''1.0.0'' (NewRequestWithContext noLibrary) ?r = (Inr req, r')"
    by (elim exE)
  note a = Authorization_kept [OF 1 2, where marshal = "\<lambda>v. Inr ''{}''" and g = init_globals
      and key = "''key''" and cs = "[]" and c = "Some (Background 0)" and Version = "''1.0.0''"
      and newRequest = "NewRequestWithContext noLibrary" and req = req and r' = r',
      unfolded k list.map]
  from a have h: "Header_Get (header ?r) ''Authorization'' = ''Basic a2V5Og==''"
    by (rule conjunct1)
  from a [THEN conjunct2] p have "Header_Get (Header req) ''Authorization'' = ''Basic a2V5Og==''"
    by (rule mp)
  with p have "\<exists>req r'. POST ''1.0.0'' (NewRequestWithContext noLibrary) ?r = (Inr req, r') \<and>
      Header_Get (Header req) ''Authorization'' = ''Basic a2V5Og==''"
    by (intro exI conjI)
  with 1 2 h show ?thesis
    by (intro conjI)
qed

section \<open>The client's configuration\<close>





end
